theory Spec2Isabelle
  imports Complex_Main
begin

section \<open>Transition rules\<close>

text \<open>
  A link state is the triple (tail node state, head node state, orientation) that the
  source writes as a Python tuple such as \<open>(7,0,0)\<close>. A transition rule is built by
  \<open>Transition(from_state, to_state, rate, name)\<close>. Rates are Python floats; they are
  modelled as real numbers, of which the rule builders only test the sign.
\<close>

type_synonym link_state = "int \<times> int \<times> int"

datatype transition =
  Transition (from_state: link_state) (to_state: link_state) (rate: real) (name: string)

fun orientation :: "link_state \<Rightarrow> int" where
  "orientation (tail_state, head_state, orient) = orient"

definition BLOCK_ID :: int where
  "BLOCK_ID = 9"

text \<open>
  \<open>GrainFacetSimulator.add_weathering_and_disturbance_transitions\<close>
  (grain\_facet\_model.py): each \<open>xn_list.append\<close> adds one rule at the end of the list
  that was passed in, and the list is returned.
\<close>

definition GrainFacetSimulator_add_weathering_and_disturbance_transitions ::
  "transition list \<Rightarrow> real \<Rightarrow> real \<Rightarrow> real \<Rightarrow> transition list" where
  "GrainFacetSimulator_add_weathering_and_disturbance_transitions xn_list d w diss =
     xn_list
     @ (if d > 0 then
          [Transition (7,0,0) (0,1,0) d ''disturbance'',
           Transition (7,0,1) (0,2,1) d ''disturbance'',
           Transition (7,0,2) (0,3,2) d ''disturbance'',
           Transition (0,7,0) (4,0,0) d ''disturbance'',
           Transition (0,7,1) (5,0,1) d ''disturbance'',
           Transition (0,7,2) (6,0,2) d ''disturbance'']
        else [])
     @ (if w > 0 then
          [Transition (8,0,0) (7,0,0) w ''weathering'',
           Transition (8,0,1) (7,0,1) w ''weathering'',
           Transition (8,0,2) (7,0,2) w ''weathering'',
           Transition (0,8,0) (0,7,0) w ''weathering'',
           Transition (0,8,1) (0,7,1) w ''weathering'',
           Transition (0,8,2) (0,7,2) w ''weathering'']
        else [])
     @ (if diss > 0 then
          [Transition (8,0,0) (0,0,0) diss ''dissolution'',
           Transition (8,0,1) (0,0,1) diss ''dissolution'',
           Transition (8,0,2) (0,0,2) diss ''dissolution'',
           Transition (0,8,0) (0,0,0) diss ''dissolution'',
           Transition (0,8,1) (0,0,1) diss ''dissolution'',
           Transition (0,8,2) (0,0,2) diss ''dissolution'']
        else [])"

text \<open>
  \<open>GrainFacetSimulator.transition_list\<close>. The base list comes from
  \<open>lattice_grain_transition_list\<close>, which lives in a module that is not part of the
  sources at hand; it is a parameter here.
\<close>

definition GrainFacetSimulator_transition_list ::
  "transition list \<Rightarrow> real \<Rightarrow> real \<Rightarrow> real \<Rightarrow> transition list" where
  "GrainFacetSimulator_transition_list lattice_grain_transition_list
       disturbance_rate weathering_rate dissolution_rate =
     GrainFacetSimulator_add_weathering_and_disturbance_transitions
       lattice_grain_transition_list disturbance_rate weathering_rate dissolution_rate"

text \<open>
  \<open>BlockHill.add_weathering_and_disturbance_transitions\<close> (block\_hill.py). The
  rock-collapse rule sits inside the branch \<open>if w > 0.0\<close>.
\<close>

definition BlockHill_add_weathering_and_disturbance_transitions ::
  "transition list \<Rightarrow> real \<Rightarrow> real \<Rightarrow> real \<Rightarrow> transition list" where
  "BlockHill_add_weathering_and_disturbance_transitions xn_list d w collapse_rate =
     xn_list
     @ (if d > 0 then
          [Transition (7,0,0) (0,1,0) d ''disturbance'',
           Transition (7,0,1) (0,2,1) d ''disturbance'',
           Transition (7,0,2) (0,3,2) d ''disturbance'',
           Transition (0,7,0) (4,0,0) d ''disturbance'',
           Transition (0,7,1) (5,0,1) d ''disturbance'',
           Transition (0,7,2) (6,0,2) d ''disturbance'']
        else [])
     @ (if w > 0 then
          [Transition (8,0,0) (BLOCK_ID,0,0) w ''weathering'',
           Transition (8,0,1) (BLOCK_ID,0,1) w ''weathering'',
           Transition (8,0,2) (BLOCK_ID,0,2) w ''weathering'',
           Transition (0,8,0) (0,BLOCK_ID,0) w ''weathering'',
           Transition (0,8,1) (0,BLOCK_ID,1) w ''weathering'',
           Transition (0,8,2) (0,BLOCK_ID,2) w ''weathering'']
          @ (if collapse_rate > 0 then
               [Transition (0,8,0) (0,BLOCK_ID,0) collapse_rate ''rock collapse'']
             else [])
        else [])"

text \<open>The attributes of a \<open>BlockHill\<close> object that its rule builders read.\<close>

record block_hill =
  settling_rate :: real
  disturbance_rate :: real
  weathering_rate :: real
  collapse_rate :: real

text \<open>\<open>BlockHill.add_block_transitions\<close>: fifteen rules, appended unconditionally.\<close>

definition add_block_transitions :: "block_hill \<Rightarrow> transition list \<Rightarrow> transition list" where
  "add_block_transitions self xn_list =
     xn_list
     @ [Transition (0,BLOCK_ID,0) (BLOCK_ID,0,0) (settling_rate self) ''block settling'',
        Transition (0,BLOCK_ID,1) (BLOCK_ID,0,1) (disturbance_rate self) ''block settling'',
        Transition (BLOCK_ID,0,2) (0,BLOCK_ID,2) (disturbance_rate self) ''block settling'']
     @ [Transition (0,BLOCK_ID,0) (0,7,0) (weathering_rate self) ''block weathering'',
        Transition (BLOCK_ID,0,0) (7,0,0) (weathering_rate self) ''block weathering'',
        Transition (0,BLOCK_ID,1) (0,7,1) (weathering_rate self) ''block weathering'',
        Transition (BLOCK_ID,0,1) (7,0,1) (weathering_rate self) ''block weathering'',
        Transition (0,BLOCK_ID,2) (0,7,2) (weathering_rate self) ''block weathering'',
        Transition (BLOCK_ID,0,2) (7,0,2) (weathering_rate self) ''block weathering'']
     @ [Transition (1,BLOCK_ID,0) (7,BLOCK_ID,0) (settling_rate self) ''hit block'',
        Transition (2,BLOCK_ID,1) (7,BLOCK_ID,1) (settling_rate self) ''hit block'',
        Transition (3,BLOCK_ID,2) (7,BLOCK_ID,2) (settling_rate self) ''hit block'',
        Transition (BLOCK_ID,4,0) (BLOCK_ID,7,0) (settling_rate self) ''hit block'',
        Transition (BLOCK_ID,5,1) (BLOCK_ID,7,1) (settling_rate self) ''hit block'',
        Transition (BLOCK_ID,6,2) (BLOCK_ID,7,2) (settling_rate self) ''hit block'']"

text \<open>\<open>BlockHill.transition_list\<close>, with the base list as a parameter as above.\<close>

definition BlockHill_transition_list :: "block_hill \<Rightarrow> transition list \<Rightarrow> transition list" where
  "BlockHill_transition_list self lattice_grain_transition_list =
     add_block_transitions self
       (BlockHill_add_weathering_and_disturbance_transitions lattice_grain_transition_list
          (disturbance_rate self) (weathering_rate self) (collapse_rate self))"

text \<open>
  Vocabulary for statements about rule lists: the rules a builder appended to the list
  it was given, the rules carrying a given label, and the shape of a rule that turns
  rock (state 8) next to air (state 0) into a resting grain (state 7) next to air.
\<close>

definition appended :: "transition list \<Rightarrow> transition list \<Rightarrow> transition list" where
  "appended xn_list result = drop (length xn_list) result"

definition rules_named :: "string \<Rightarrow> transition list \<Rightarrow> transition list" where
  "rules_named label xs = filter (\<lambda>t. name t = label) xs"




section \<open>Node indexing on the staggered grid\<close>

text \<open>
  Python exceptions are values: a function that can raise returns \<open>py_error + 'a\<close>,
  with \<open>Inl\<close> for the exception.
\<close>

datatype py_error = IndexError | ZeroDivisionError | KeyError | AttributeError | LinAlgError

text \<open>
  \<open>row_col_to_id\<close> (cosmogenic\_irradiator.py), on Python's unbounded integers;
  \<open>//\<close> and \<open>%\<close> round towards minus infinity, as \<open>div\<close> and \<open>mod\<close> on \<open>int\<close> do.
\<close>

definition row_col_to_id :: "int \<Rightarrow> int \<Rightarrow> int \<Rightarrow> int" where
  "row_col_to_id row col num_cols =
     row * num_cols + col div 2 + (col mod 2) * ((num_cols + 1) div 2)"

text \<open>
  numpy's \<open>arange(start, stop, step)\<close> on integers: the values
  \<open>start + k * step\<close> for \<open>k\<close> below the ceiling of \<open>(stop - start) / step\<close>, and
  an exception for a zero step.
\<close>

definition np_arange :: "int \<Rightarrow> int \<Rightarrow> int \<Rightarrow> py_error + int list" where
  "np_arange start stop step =
     (if step = 0 then Inl ZeroDivisionError
      else Inr (map (\<lambda>k. start + int k * step) [0..<nat (- ((start - stop) div step))]))"

text \<open>\<open>GrainFacetSimulator.nodes_in_column\<close> (grain\_facet\_model.py).\<close>

definition nodes_in_column :: "int \<Rightarrow> int \<Rightarrow> int \<Rightarrow> py_error + int list" where
  "nodes_in_column col num_rows num_cols =
     (let base_node = (col div 2) + (col mod 2) * ((num_cols + 1) div 2);
          num_nodes = num_rows * num_cols
      in np_arange base_node num_nodes num_cols)"


section \<open>Tracer accumulation\<close>

text \<open>
  Reading and writing a numpy array or Python list at an integer index: a negative
  index counts from the end, an index outside the array raises \<open>IndexError\<close>.
\<close>

definition py_get :: "'a list \<Rightarrow> int \<Rightarrow> py_error + 'a" where
  "py_get xs i =
     (let n = int (length xs); j = (if i < 0 then i + n else i)
      in if 0 \<le> j \<and> j < n then Inr (xs ! nat j) else Inl IndexError)"

definition py_set :: "'a list \<Rightarrow> int \<Rightarrow> 'a \<Rightarrow> py_error + 'a list" where
  "py_set xs i v =
     (let n = int (length xs); j = (if i < 0 then i + n else i)
      in if 0 \<le> j \<and> j < n then Inr (xs[nat j := v]) else Inl IndexError)"

text \<open>Sequencing of steps that may raise: the first exception ends the computation.\<close>

fun and_then :: "'e + 'a \<Rightarrow> ('a \<Rightarrow> 'e + 'b) \<Rightarrow> 'e + 'b" where
  "and_then (Inl e) f = Inl e"
| "and_then (Inr x) f = f x"

text \<open>
  What \<open>CosmogenicIrradiator.add_cosmos\<close> reads and writes: the grid's numbers of
  rows and columns, the engine's node states and particle-identity index \<open>propid\<close>, the
  production rate and decay depth, and the tracer field \<open>cosmo\<close>. Floats are modelled as
  real numbers.
\<close>

record irradiator =
  number_of_node_rows :: int
  number_of_node_columns :: int
  node_state :: "int list"
  propid :: "int list"
  prod_rate :: real
  decay_depth :: real
  cosmo :: "real list"

text \<open>
  The body of the inner loop of \<open>add_cosmos\<close>, for the node in row \<open>r\<close> of column \<open>c\<close>;
  the loop state is the cumulative depth and the tracer field. Dividing a Python float
  by a zero decay depth raises \<open>ZeroDivisionError\<close>.
\<close>

definition add_cosmos_node ::
  "irradiator \<Rightarrow> real \<Rightarrow> real \<Rightarrow> int \<Rightarrow> int \<Rightarrow> real \<times> real list \<Rightarrow> py_error + real \<times> real list" where
  "add_cosmos_node self duration cell_width c r st =
     (case st of (cumulative_depth, cosmo_field) \<Rightarrow>
      let node_id = row_col_to_id r c (number_of_node_columns self) in
      and_then (py_get (node_state self) node_id) (\<lambda>state.
        if state \<noteq> 0 then
          if decay_depth self = 0 then Inl ZeroDivisionError
          else
            let dose_rate = prod_rate self * exp (- cumulative_depth / decay_depth self) in
            and_then (py_get (propid self) node_id) (\<lambda>pid.
            and_then (py_get cosmo_field pid) (\<lambda>old.
            and_then (py_set cosmo_field pid (old + dose_rate * duration)) (\<lambda>cosmo_field'.
              Inr (cumulative_depth + cell_width, cosmo_field'))))
        else
          and_then (py_get (propid self) node_id) (\<lambda>pid.
          and_then (py_set cosmo_field pid 0) (\<lambda>cosmo_field'.
            Inr (cumulative_depth, cosmo_field')))))"

text \<open>The inner loop \<open>for r in range(number_of_node_rows - 1, -1, -1)\<close> over a list of rows.\<close>

fun add_cosmos_rows ::
  "irradiator \<Rightarrow> real \<Rightarrow> real \<Rightarrow> int \<Rightarrow> int list \<Rightarrow> real \<times> real list \<Rightarrow> py_error + real \<times> real list" where
  "add_cosmos_rows self duration cell_width c [] st = Inr st"
| "add_cosmos_rows self duration cell_width c (r # rs) st =
     and_then (add_cosmos_node self duration cell_width c r st)
       (add_cosmos_rows self duration cell_width c rs)"

text \<open>
  The outer loop \<open>for c in range(1, number_of_node_columns - 1)\<close> over a list of columns;
  each column starts at a cumulative depth of half a cell.
\<close>

fun add_cosmos_columns ::
  "irradiator \<Rightarrow> real \<Rightarrow> real \<Rightarrow> int list \<Rightarrow> real list \<Rightarrow> py_error + real list" where
  "add_cosmos_columns self duration cell_width [] cosmo_field = Inr cosmo_field"
| "add_cosmos_columns self duration cell_width (c # cs) cosmo_field =
     and_then
       (add_cosmos_rows self duration cell_width c
          (rev [0 .. number_of_node_rows self - 1]) (cell_width / 2, cosmo_field))
       (\<lambda>st. add_cosmos_columns self duration cell_width cs (snd st))"

definition add_cosmos :: "irradiator \<Rightarrow> real \<Rightarrow> real \<Rightarrow> py_error + irradiator" where
  "add_cosmos self duration cell_width =
     and_then
       (add_cosmos_columns self duration cell_width
          [1 .. number_of_node_columns self - 2] (cosmo self))
       (\<lambda>cosmo_field. Inr (self\<lparr>cosmo := cosmo_field\<rparr>))"

text \<open>
  Vocabulary for statements about the tracer field. The tracer value of a node is the
  entry of \<open>cosmo\<close> at the node's particle identity. A grid is well formed when the
  node-state and identity arrays have one entry per node, the identities are distinct
  indices into the tracer field (the engine keeps \<open>propid\<close> a permutation of the node
  ids), and the decay depth is not zero.
\<close>

definition node_of :: "irradiator \<Rightarrow> int \<Rightarrow> int \<Rightarrow> int" where
  "node_of self r c = row_col_to_id r c (number_of_node_columns self)"

definition air_at :: "irradiator \<Rightarrow> int \<Rightarrow> int \<Rightarrow> bool" where
  "air_at self r c = (py_get (node_state self) (node_of self r c) = Inr 0)"

definition tracer_of :: "irradiator \<Rightarrow> int \<Rightarrow> int \<Rightarrow> py_error + real" where
  "tracer_of self r c =
     and_then (py_get (propid self) (node_of self r c)) (\<lambda>pid. py_get (cosmo self) pid)"

definition solid_above :: "irradiator \<Rightarrow> int \<Rightarrow> int \<Rightarrow> nat" where
  "solid_above self r c =
     length (filter (\<lambda>r'. \<not> air_at self r' c) [r + 1 .. number_of_node_rows self - 1])"

definition well_formed :: "irradiator \<Rightarrow> bool" where
  "well_formed self =
     (0 \<le> number_of_node_rows self \<and> 0 \<le> number_of_node_columns self
      \<and> length (node_state self) = nat (number_of_node_rows self * number_of_node_columns self)
      \<and> length (propid self) = nat (number_of_node_rows self * number_of_node_columns self)
      \<and> distinct (propid self)
      \<and> list_all (\<lambda>pid. 0 \<le> pid \<and> pid < int (length (cosmo self))) (propid self)
      \<and> decay_depth self \<noteq> 0)"

text \<open>
  The reading of the specification's sentence on air nodes: in column \<open>c\<close>, every node
  below the topmost air node has the tracer value after the call that it had before.
\<close>

definition first_air_row :: "irradiator \<Rightarrow> int \<Rightarrow> int option" where
  "first_air_row self c =
     List.find (\<lambda>r. air_at self r c) (rev [0 .. number_of_node_rows self - 1])"

definition untouched_below_first_air :: "irradiator \<Rightarrow> irradiator \<Rightarrow> int \<Rightarrow> bool" where
  "untouched_below_first_air before after c =
     (case first_air_row before c of
        None \<Rightarrow> True
      | Some ra \<Rightarrow> list_all (\<lambda>r. tracer_of after r c = tracer_of before r c) [0 .. ra - 1])"


text \<open>The index into the tracer field of the particle at a node of a well-formed grid.\<close>

definition slot_of :: "irradiator \<Rightarrow> int \<Rightarrow> int \<Rightarrow> nat" where
  "slot_of self r c = nat (propid self ! nat (node_of self r c))"

text \<open>
  Two concrete grids. The first is the grid of the docstring example of \<open>add_cosmos\<close>
  (three rows, five columns, air in the top row); the second has an interior column
  without air and identities that are not the node ids.
\<close>

definition example_grid :: irradiator where
  "example_grid =
     \<lparr>number_of_node_rows = 3, number_of_node_columns = 5,
      node_state = [8, 7, 8, 7, 7, 0, 7, 0, 7, 7, 0, 0, 0, 0, 0],
      propid = [0, 1, 2, 3, 4, 5, 6, 7, 8, 9, 10, 11, 12, 13, 14],
      prod_rate = 1, decay_depth = 2,
      cosmo = [0, 0, 0, 0, 0, 0, 0, 0, 0, 0, 0, 0, 0, 0, 0]\<rparr>"

definition solid_grid :: irradiator where
  "solid_grid =
     \<lparr>number_of_node_rows = 2, number_of_node_columns = 3,
      node_state = [0, 0, 8, 0, 0, 7],
      propid = [1, 0, 3, 2, 5, 4],
      prod_rate = 3, decay_depth = 2,
      cosmo = [0, 0, 0, 0, 0, 0]\<rparr>"


section \<open>Surface extraction and line fit\<close>

text \<open>
  What \<open>SlopeMeasurer\<close> reads from the model: the engine's dictionary from link-state
  tuples to integer codes (a Python dict, kept as the list of its items in iteration
  order), the code of every link, and the grid's tail and head node of every link and
  node coordinates. Node ids are array indices and are modelled as natural numbers.
\<close>

record ca_model =
  link_state_dict :: "(link_state \<times> int) list"
  link_state :: "int list"
  node_at_link_tail :: "nat list"
  node_at_link_head :: "nat list"
  node_x :: "real list"
  node_y :: "real list"



























section \<open>Simulation driver loop\<close>

text \<open>
  The attributes of a \<open>GrainFacetSimulator\<close> that \<open>run\<close> reads. Times are Python
  floats, modelled as real numbers.
\<close>

record grain_facet_simulator =
  run_duration :: real
  output_interval :: real
  plot_interval :: real
  uplift_interval :: real
  plot_file_name :: "string option"

text \<open>
  The calls that \<open>run\<close> makes on its collaborators, in order: the engine's
  \<open>ca.run(next_pause, ...)\<close>, the plotter's \<open>update_plot()\<close>, \<open>plot_to_file()\<close> and the
  fault's \<open>do_offset(current_time=...)\<close>.
\<close>

datatype run_event = Ca_run real | Update_plot | Plot_to_file | Do_offset real

text \<open>The local variables of \<open>run\<close>, and the calls made so far.\<close>

record run_state =
  next_output :: real
  next_plot :: real
  next_uplift :: real
  current_time :: real
  events :: "run_event list"

text \<open>
  One pass through the body of the \<open>while\<close> loop. The progress report compares the
  wall clock with \<open>next_report\<close> and only prints; it is left out.
\<close>

definition run_iteration :: "grain_facet_simulator \<Rightarrow> run_state \<Rightarrow> run_state" where
  "run_iteration self st =
     (let next_pause = min (next_output st) (next_plot st);
          next_pause = min next_pause (next_uplift st);
          next_pause = min next_pause (run_duration self);
          st = st\<lparr>events := events st @ [Ca_run next_pause], current_time := next_pause\<rparr>;
          st = (if current_time st \<ge> next_output st
                then st\<lparr>next_output := next_output st + output_interval self\<rparr>
                else st);
          st = (if current_time st \<ge> next_plot st
                then st\<lparr>events := events st @ [Update_plot]
                                   @ (if plot_file_name self \<noteq> None then [Plot_to_file] else []),
                        next_plot := next_plot st + plot_interval self\<rparr>
                else st);
          st = (if current_time st \<ge> next_uplift st
                then st\<lparr>events := events st @ [Do_offset (current_time st)],
                        next_uplift := next_uplift st + uplift_interval self\<rparr>
                else st)
      in st)"

text \<open>
  The loop \<open>while current_time < self.run_duration\<close>. It need not end (an interval of
  zero stalls it), so the result is an option and \<open>None\<close> stands for a run that never
  returns.
\<close>

partial_function (option) run_loop :: "grain_facet_simulator \<Rightarrow> run_state \<Rightarrow> run_state option" where
  "run_loop self st =
     (if current_time st < run_duration self then run_loop self (run_iteration self st)
      else Some st)"

definition run :: "grain_facet_simulator \<Rightarrow> run_state option" where
  "run self =
     run_loop self
       \<lparr>next_output = output_interval self, next_plot = plot_interval self,
        next_uplift = uplift_interval self, current_time = 0, events = []\<rparr>"





section \<open>Properties of the transition rules\<close>

lemma appended_append [simp]: "appended xs (xs @ ys) = ys"
  by (simp add: appended_def)

text \<open>
  C1. When the disturbance, weathering and dissolution rates are all exactly 0, the
  facet model's rule builder returns the base list it was given, unchanged; and for
  any rates at all, no rule that it appends has a rate that is not strictly positive.
\<close>

theorem zero_rates_return_base_list:
  "GrainFacetSimulator_add_weathering_and_disturbance_transitions xn_list 0 0 0 = xn_list
   \<and> GrainFacetSimulator_transition_list xn_list 0 0 0 = xn_list
   \<and> (\<forall>t \<in> set (appended xn_list
         (GrainFacetSimulator_add_weathering_and_disturbance_transitions xn_list d w diss)).
        0 < rate t)"
  by (auto simp add: GrainFacetSimulator_add_weathering_and_disturbance_transitions_def
      GrainFacetSimulator_transition_list_def)

theorem zero_rates_return_base_list_witness:
  "GrainFacetSimulator_add_weathering_and_disturbance_transitions
       [Transition (1,0,0) (0,1,0) 5 ''falling''] 0 0 0
     = [Transition (1,0,0) (0,1,0) 5 ''falling'']
   \<and> Transition (8,0,1) (0,0,1) 3 ''dissolution''
       \<in> set (appended [Transition (1,0,0) (0,1,0) 5 ''falling'']
           (GrainFacetSimulator_add_weathering_and_disturbance_transitions
              [Transition (1,0,0) (0,1,0) 5 ''falling''] 0 0 3))
   \<and> 0 < rate (Transition (8,0,1) (0,0,1) 3 ''dissolution'')"
  using zero_rates_return_base_list
    [of "[Transition (1,0,0) (0,1,0) 5 ''falling'']" 0 0 3]
  by (simp add: GrainFacetSimulator_add_weathering_and_disturbance_transitions_def
      appended_def)

text \<open>
  C2. Every rule appended by the rule builders (disturbance, weathering, dissolution,
  rock collapse, block settling, block weathering and block collision) has the same
  orientation, the third component of the triple, in its from-state and its to-state.
\<close>

theorem appended_rules_preserve_orientation:
  "(\<forall>t \<in> set (appended xn_list
        (GrainFacetSimulator_add_weathering_and_disturbance_transitions xn_list d w diss)).
      orientation (from_state t) = orientation (to_state t))
   \<and> (\<forall>t \<in> set (appended xn_list
        (BlockHill_add_weathering_and_disturbance_transitions xn_list d w cr)).
      orientation (from_state t) = orientation (to_state t))
   \<and> (\<forall>t \<in> set (appended xn_list (add_block_transitions self xn_list)).
      orientation (from_state t) = orientation (to_state t))"
proof (intro conjI ballI)
  fix t
  assume "t \<in> set (appended xn_list
      (GrainFacetSimulator_add_weathering_and_disturbance_transitions xn_list d w diss))"
  then show "orientation (from_state t) = orientation (to_state t)"
    by (auto simp add: GrainFacetSimulator_add_weathering_and_disturbance_transitions_def
        split: if_splits)
next
  fix t
  assume "t \<in> set (appended xn_list
      (BlockHill_add_weathering_and_disturbance_transitions xn_list d w cr))"
  then show "orientation (from_state t) = orientation (to_state t)"
    by (auto simp add: BlockHill_add_weathering_and_disturbance_transitions_def
        split: if_splits)
next
  fix t
  assume "t \<in> set (appended xn_list (add_block_transitions self xn_list))"
  then show "orientation (from_state t) = orientation (to_state t)"
    by (auto simp add: add_block_transitions_def)
qed

theorem appended_rules_preserve_orientation_witness:
  "Transition (0,7,2) (6,0,2) 1 ''disturbance''
     \<in> set (appended [] (GrainFacetSimulator_add_weathering_and_disturbance_transitions [] 1 1 1))
   \<and> orientation (0,7,2) = orientation (6,0,2)
   \<and> Transition (0,8,0) (0,BLOCK_ID,0) 2 ''rock collapse''
     \<in> set (appended [] (BlockHill_add_weathering_and_disturbance_transitions [] 1 1 2))
   \<and> orientation (0,8,0) = orientation (0,BLOCK_ID,0)
   \<and> Transition (BLOCK_ID,0,2) (0,BLOCK_ID,2) 4 ''block settling''
     \<in> set (appended [] (add_block_transitions
          \<lparr>settling_rate = 3, disturbance_rate = 4, weathering_rate = 5, collapse_rate = 6\<rparr> []))
   \<and> orientation (BLOCK_ID,0,2) = orientation (0,BLOCK_ID,2)"
  using appended_rules_preserve_orientation
    [of "[]" 1 1 1 2
      "\<lparr>settling_rate = 3, disturbance_rate = 4, weathering_rate = 5, collapse_rate = 6\<rparr>"]
  by (simp add: GrainFacetSimulator_add_weathering_and_disturbance_transitions_def
      BlockHill_add_weathering_and_disturbance_transitions_def add_block_transitions_def
      appended_def)




text \<open>
  C10. In the block model the rock-collapse rule is appended only under a strictly
  positive weathering rate: if a rock-collapse rule is among the appended rules then
  \<open>w > 0\<close>, and with \<open>w = 0\<close> the builder appends no rock-collapse rule however large
  the collapse rate is, so the returned list has the rock-collapse rules of its input
  and no others.
\<close>

theorem rock_collapse_needs_weathering:
  "(list_ex (\<lambda>t. name t = ''rock collapse'')
       (appended xn_list (BlockHill_add_weathering_and_disturbance_transitions xn_list d w cr))
     \<longrightarrow> 0 < w)
   \<and> (0 < cr \<and> w = 0 \<longrightarrow>
        rules_named ''rock collapse''
          (appended xn_list (BlockHill_add_weathering_and_disturbance_transitions xn_list d w cr)) = []
        \<and> rules_named ''rock collapse''
          (BlockHill_add_weathering_and_disturbance_transitions xn_list d w cr)
          = rules_named ''rock collapse'' xn_list)"
  by (simp add: BlockHill_add_weathering_and_disturbance_transitions_def rules_named_def)

theorem rock_collapse_needs_weathering_witness:
  "(0::real) < 5 \<and> (0::real) = 0
   \<and> rules_named ''rock collapse''
       (BlockHill_add_weathering_and_disturbance_transitions [] 1 0 5) = []
   \<and> list_ex (\<lambda>t. name t = ''rock collapse'')
       (appended [] (BlockHill_add_weathering_and_disturbance_transitions [] 1 2 5))
   \<and> (0::real) < 2"
  using rock_collapse_needs_weathering [of "[]" 1 0 5]
    rock_collapse_needs_weathering [of "[]" 1 2 5]
  by (simp add: BlockHill_add_weathering_and_disturbance_transitions_def rules_named_def
      appended_def)


section \<open>Properties of the node indexing\<close>

text \<open>
  Within a row the staggered numbering puts the even columns first and the odd columns
  after them, so the offset of a column inside its row is below the number of columns.
\<close>

lemma column_offset_bounds:
  fixes col num_cols :: int
  assumes "0 \<le> col" "col < num_cols"
  shows "0 \<le> col div 2 + (col mod 2) * ((num_cols + 1) div 2)
      \<and> col div 2 + (col mod 2) * ((num_cols + 1) div 2) < num_cols"
proof -
  have "col mod 2 = 0 \<or> col mod 2 = 1" by presburger
  then show ?thesis
  proof
    assume "col mod 2 = 0"
    with assms show ?thesis by simp
  next
    assume "col mod 2 = 1"
    with assms show ?thesis by simp presburger
  qed
qed

lemma div_of_shifted_offset:
  fixes base nc nr :: int
  assumes "1 \<le> nc" "0 \<le> base" "base < nc"
  shows "(base - nr * nc) div nc = - nr"
proof -
  have "(base + nc * (- nr)) div nc = (- nr) + base div nc"
    using assms(1) by (intro div_mult_self2) simp
  then show ?thesis using assms by (simp add: algebra_simps)
qed

text \<open>
  C9. On every grid with at least one row and one column, for every row \<open>r\<close> and column
  \<open>col\<close> of the grid, \<open>nodes_in_column\<close> returns an array of one entry per row whose
  \<open>r\<close>-th entry is \<open>row_col_to_id r col num_cols\<close>.
\<close>

theorem nodes_in_column_agrees_with_row_col_to_id:
  assumes "1 \<le> num_rows" "1 \<le> num_cols" "0 \<le> r" "r < num_rows" "0 \<le> col" "col < num_cols"
  shows "\<exists>ids. nodes_in_column col num_rows num_cols = Inr ids
           \<and> length ids = nat num_rows
           \<and> ids ! nat r = row_col_to_id r col num_cols"
proof -
  define base where "base = col div 2 + (col mod 2) * ((num_cols + 1) div 2)"
  have b: "0 \<le> base" "base < num_cols"
    using column_offset_bounds [OF assms(5,6)] by (simp_all add: base_def)
  have len: "nat (- ((base - num_rows * num_cols) div num_cols)) = nat num_rows"
    using div_of_shifted_offset [OF assms(2) b] by simp
  have "nodes_in_column col num_rows num_cols
          = Inr (map (\<lambda>k. base + int k * num_cols) [0..<nat num_rows])"
    using assms(2) len by (simp add: nodes_in_column_def np_arange_def Let_def base_def)
  moreover have "map (\<lambda>k. base + int k * num_cols) [0..<nat num_rows] ! nat r
          = row_col_to_id r col num_cols"
    using assms(3,4) by (simp add: row_col_to_id_def base_def)
  ultimately show ?thesis by simp
qed

theorem nodes_in_column_agrees_with_row_col_to_id_witness:
  "(1::int) \<le> 3 \<and> (1::int) \<le> 6 \<and> (0::int) \<le> 2 \<and> (2::int) < 3 \<and> (0::int) \<le> 3 \<and> (3::int) < 6
   \<and> (\<exists>ids. nodes_in_column 3 3 6 = Inr ids \<and> length ids = nat 3
         \<and> ids ! nat 2 = row_col_to_id 2 3 6)
   \<and> row_col_to_id 2 3 6 = 16"
  using nodes_in_column_agrees_with_row_col_to_id [of 3 6 2 3]
  by (simp add: row_col_to_id_def)


section \<open>Properties of the tracer accumulation\<close>

lemma row_col_to_id_range:
  assumes "0 \<le> r" "r < nr" "0 \<le> c" "c < nc"
  shows "0 \<le> row_col_to_id r c nc \<and> row_col_to_id r c nc < nr * nc"
proof -
  define off where "off = c div 2 + (c mod 2) * ((nc + 1) div 2)"
  have o: "0 \<le> off" "off < nc"
    using column_offset_bounds [OF assms(3,4)] by (simp_all add: off_def)
  have id: "row_col_to_id r c nc = r * nc + off"
    by (simp add: row_col_to_id_def off_def)
  have "0 \<le> r * nc" using assms(1) o by simp
  moreover have "(r + 1) * nc \<le> nr * nc"
    using assms(2) o by (intro mult_right_mono) simp_all
  ultimately show ?thesis using o by (simp add: id algebra_simps)
qed

lemma column_offset_inj:
  fixes c c' nc :: int
  assumes "0 \<le> c" "c < nc" "0 \<le> c'" "c' < nc"
    and "c div 2 + (c mod 2) * ((nc + 1) div 2) = c' div 2 + (c' mod 2) * ((nc + 1) div 2)"
  shows "c = c'"
proof -
  have "c mod 2 = 0 \<or> c mod 2 = 1" by presburger
  moreover have "c' mod 2 = 0 \<or> c' mod 2 = 1" by presburger
  ultimately consider "c mod 2 = 0" "c' mod 2 = 0" | "c mod 2 = 0" "c' mod 2 = 1"
    | "c mod 2 = 1" "c' mod 2 = 0" | "c mod 2 = 1" "c' mod 2 = 1" by blast
  then show ?thesis
  proof cases
    case 1 with assms show ?thesis by (simp; presburger?)
  next
    case 2 with assms show ?thesis by (simp; presburger?)
  next
    case 3 with assms show ?thesis by (simp; presburger?)
  next
    case 4 with assms show ?thesis by (simp; presburger?)
  qed
qed

lemma row_col_to_id_inj:
  assumes "0 \<le> c" "c < nc" "0 \<le> c'" "c' < nc"
    and "row_col_to_id r c nc = row_col_to_id r' c' nc"
  shows "r = r' \<and> c = c'"
proof -
  define off where "off = c div 2 + (c mod 2) * ((nc + 1) div 2)"
  define off' where "off' = c' div 2 + (c' mod 2) * ((nc + 1) div 2)"
  have o: "0 \<le> off" "off < nc"
    using column_offset_bounds [OF assms(1,2)] by (simp_all add: off_def)
  have o': "0 \<le> off'" "off' < nc"
    using column_offset_bounds [OF assms(3,4)] by (simp_all add: off'_def)
  have eq: "r * nc + off = r' * nc + off'"
    using assms(5) by (simp add: row_col_to_id_def off_def off'_def)
  have "(r * nc + off) div nc = r" "(r' * nc + off') div nc = r'"
    using o o' by simp_all
  with eq have r: "r = r'" by simp
  with eq have "off = off'" by simp
  then have "c = c'"
    using column_offset_inj [OF assms(1-4)] by (simp add: off_def off'_def)
  with r show ?thesis by simp
qed


lemma py_get_in_range:
  assumes "0 \<le> i" "nat i < length xs"
  shows "py_get xs i = Inr (xs ! nat i)"
proof -
  have "i < int (length xs)" using assms by linarith
  with assms(1) show ?thesis by (simp add: py_get_def Let_def)
qed

lemma py_set_in_range:
  assumes "0 \<le> i" "nat i < length xs"
  shows "py_set xs i v = Inr (xs[nat i := v])"
proof -
  have "i < int (length xs)" using assms by linarith
  with assms(1) show ?thesis by (simp add: py_set_def Let_def)
qed

lemma node_of_range:
  assumes "well_formed self" "0 \<le> r" "r < number_of_node_rows self"
    "0 \<le> c" "c < number_of_node_columns self"
  shows "0 \<le> node_of self r c"
    and "nat (node_of self r c) < length (propid self)"
    and "nat (node_of self r c) < length (node_state self)"
proof -
  have rg: "0 \<le> node_of self r c
      \<and> node_of self r c < number_of_node_rows self * number_of_node_columns self"
    unfolding node_of_def using row_col_to_id_range [OF assms(2-5)] .
  then show "0 \<le> node_of self r c" by simp
  from rg assms(1) show "nat (node_of self r c) < length (propid self)"
    by (simp add: well_formed_def)
  from rg assms(1) show "nat (node_of self r c) < length (node_state self)"
    by (simp add: well_formed_def)
qed

lemma slot_of_range:
  assumes "well_formed self" "0 \<le> r" "r < number_of_node_rows self"
    "0 \<le> c" "c < number_of_node_columns self"
  shows "slot_of self r c < length (cosmo self)"
    and "py_get (propid self) (node_of self r c) = Inr (int (slot_of self r c))"
proof -
  note n = node_of_range [OF assms]
  have "propid self ! nat (node_of self r c) \<in> set (propid self)"
    using n(2) by simp
  then have v: "0 \<le> propid self ! nat (node_of self r c)"
    "propid self ! nat (node_of self r c) < int (length (cosmo self))"
    using assms(1) by (simp_all add: well_formed_def list_all_iff)
  then show "slot_of self r c < length (cosmo self)"
    by (simp add: slot_of_def)
  show "py_get (propid self) (node_of self r c) = Inr (int (slot_of self r c))"
    using n v by (simp add: py_get_in_range slot_of_def)
qed

lemma slot_of_inj:
  assumes "well_formed self"
    and "0 \<le> r" "r < number_of_node_rows self" "0 \<le> c" "c < number_of_node_columns self"
    and "0 \<le> r'" "r' < number_of_node_rows self" "0 \<le> c'" "c' < number_of_node_columns self"
    and "slot_of self r c = slot_of self r' c'"
  shows "r = r' \<and> c = c'"
proof -
  note n = node_of_range [OF assms(1-5)] and n' = node_of_range [OF assms(1,6-9)]
  have "propid self ! nat (node_of self r c) \<in> set (propid self)"
    "propid self ! nat (node_of self r' c') \<in> set (propid self)"
    using n(2) n'(2) by simp_all
  then have "0 \<le> propid self ! nat (node_of self r c)"
    "0 \<le> propid self ! nat (node_of self r' c')"
    using assms(1) by (simp_all add: well_formed_def list_all_iff)
  with assms(10) have "propid self ! nat (node_of self r c) = propid self ! nat (node_of self r' c')"
    by (simp add: slot_of_def)
  moreover have "distinct (propid self)"
    using assms(1) by (simp add: well_formed_def)
  ultimately have "nat (node_of self r c) = nat (node_of self r' c')"
    using n(2) n'(2) by (simp add: nth_eq_iff_index_eq)
  with n(1) n'(1) have "node_of self r c = node_of self r' c'" by simp
  then show ?thesis
    unfolding node_of_def using row_col_to_id_inj [OF assms(4,5,8,9)] by simp
qed

lemma add_cosmos_node_result:
  assumes "well_formed self" "0 \<le> r" "r < number_of_node_rows self"
    "0 \<le> c" "c < number_of_node_columns self" "length cf = length (cosmo self)"
  shows "add_cosmos_node self T cw c r (d, cf) =
     Inr (if air_at self r c then (d, cf[slot_of self r c := 0])
          else (d + cw, cf[slot_of self r c :=
                  cf ! slot_of self r c + prod_rate self * exp (- d / decay_depth self) * T]))"
proof -
  note n = node_of_range [OF assms(1-5)] and s = slot_of_range [OF assms(1-5)]
  have ns: "py_get (node_state self) (node_of self r c)
      = Inr (node_state self ! nat (node_of self r c))"
    using n by (simp add: py_get_in_range)
  have dd: "decay_depth self \<noteq> 0"
    using assms(1) by (simp add: well_formed_def)
  have g: "py_get cf (int (slot_of self r c)) = Inr (cf ! slot_of self r c)"
    using s(1) assms(6) by (simp add: py_get_in_range)
  have u: "py_set cf (int (slot_of self r c)) v = Inr (cf[slot_of self r c := v])" for v
    using s(1) assms(6) by (simp add: py_set_in_range)
  show ?thesis
    using ns dd
    by (simp add: add_cosmos_node_def air_at_def s(2) g u node_of_def [symmetric] Let_def)
qed


lemma add_cosmos_rows_result:
  assumes wf: "well_formed self" and c: "0 \<le> c" "c < number_of_node_columns self"
  shows "int m \<le> number_of_node_rows self \<Longrightarrow> length cf = length (cosmo self) \<Longrightarrow>
    \<exists>d' cf'. add_cosmos_rows self T cw c (rev [0 .. int m - 1]) (d, cf) = Inr (d', cf')
      \<and> length cf' = length cf
      \<and> (\<forall>r. 0 \<le> r \<and> r < int m \<longrightarrow> cf' ! slot_of self r c =
           (if air_at self r c then 0
            else cf ! slot_of self r c
              + prod_rate self
                * exp (- (d + cw * real (length (filter (\<lambda>r'. \<not> air_at self r' c)
                                                  [r + 1 .. int m - 1])))
                       / decay_depth self) * T))
      \<and> (\<forall>j. (\<forall>r. 0 \<le> r \<and> r < int m \<longrightarrow> j \<noteq> slot_of self r c) \<longrightarrow> cf' ! j = cf ! j)"
proof (induction m arbitrary: d cf)
  case 0
  then show ?case by simp
next
  case (Suc m)
  have m: "0 \<le> int m" "int m < number_of_node_rows self"
    using Suc.prems(1) by simp_all
  define d1 where "d1 = (if air_at self (int m) c then d else d + cw)"
  define v where "v = (if air_at self (int m) c then 0
      else cf ! slot_of self (int m) c + prod_rate self * exp (- d / decay_depth self) * T)"
  define cf1 where "cf1 = cf[slot_of self (int m) c := v]"
  have rows: "rev [0 .. int m] = int m # rev [0 .. int m - 1]"
    by (simp add: upto_rec2)
  have step: "add_cosmos_node self T cw c (int m) (d, cf) = Inr (d1, cf1)"
    using add_cosmos_node_result [OF wf m c Suc.prems(2)]
    by (simp add: d1_def cf1_def v_def)
  have len1: "length cf1 = length (cosmo self)"
    using Suc.prems(2) by (simp add: cf1_def)
  from Suc.IH [OF _ len1, of d1] m
  obtain d' cf' where
    run: "add_cosmos_rows self T cw c (rev [0 .. int m - 1]) (d1, cf1) = Inr (d', cf')"
    and len': "length cf' = length cf1"
    and val: "\<And>r. 0 \<le> r \<Longrightarrow> r < int m \<Longrightarrow> cf' ! slot_of self r c =
           (if air_at self r c then 0
            else cf1 ! slot_of self r c
              + prod_rate self
                * exp (- (d1 + cw * real (length (filter (\<lambda>r'. \<not> air_at self r' c)
                                                  [r + 1 .. int m - 1])))
                       / decay_depth self) * T)"
    and same: "\<And>j. (\<forall>r. 0 \<le> r \<and> r < int m \<longrightarrow> j \<noteq> slot_of self r c) \<Longrightarrow> cf' ! j = cf1 ! j"
    by auto
  have sm: "slot_of self (int m) c < length cf"
    using slot_of_range(1) [OF wf m c] Suc.prems(2) by simp
  have other: "slot_of self r c \<noteq> slot_of self (int m) c" if "0 \<le> r" "r < int m" for r
    using slot_of_inj [OF wf that(1) _ c m c] that m by auto
  have "add_cosmos_rows self T cw c (rev [0 .. int (Suc m) - 1]) (d, cf) = Inr (d', cf')"
    using step run by (simp add: rows)
  moreover have "length cf' = length cf"
    using len' by (simp add: cf1_def)
  moreover have "cf' ! slot_of self r c =
           (if air_at self r c then 0
            else cf ! slot_of self r c
              + prod_rate self
                * exp (- (d + cw * real (length (filter (\<lambda>r'. \<not> air_at self r' c)
                                                  [r + 1 .. int (Suc m) - 1])))
                       / decay_depth self) * T)"
    if r: "0 \<le> r" "r < int (Suc m)" for r
  proof (cases "r = int m")
    case True
    have "cf' ! slot_of self (int m) c = cf1 ! slot_of self (int m) c"
      using same [of "slot_of self (int m) c"] other by metis
    also have "\<dots> = v"
      using sm by (simp add: cf1_def)
    finally show ?thesis
      using True by (simp add: v_def)
  next
    case False
    with r have r': "0 \<le> r" "r < int m" by simp_all
    define K where "K = length (filter (\<lambda>r'. \<not> air_at self r' c) [r + 1 .. int m - 1])"
    have cnt: "length (filter (\<lambda>r'. \<not> air_at self r' c) [r + 1 .. int (Suc m) - 1])
        = K + (if air_at self (int m) c then 0 else 1)"
      using r' by (simp add: K_def upto_rec2)
    have depth: "d1 + cw * real K
        = d + cw * real (K + (if air_at self (int m) c then 0 else 1))"
      by (simp add: d1_def algebra_simps)
    have old: "cf1 ! slot_of self r c = cf ! slot_of self r c"
      using other [OF r'] by (simp add: cf1_def)
    from val [OF r'] have "cf' ! slot_of self r c =
        (if air_at self r c then 0
         else cf ! slot_of self r c
           + prod_rate self * exp (- (d1 + cw * real K) / decay_depth self) * T)"
      by (simp add: old K_def)
    then show ?thesis
      unfolding cnt depth .
  qed
  moreover have "cf' ! j = cf ! j"
    if "\<forall>r. 0 \<le> r \<and> r < int (Suc m) \<longrightarrow> j \<noteq> slot_of self r c" for j
  proof -
    from that have a: "\<forall>r. 0 \<le> r \<and> r < int m \<longrightarrow> j \<noteq> slot_of self r c"
      and b: "j \<noteq> slot_of self (int m) c" by simp_all
    show ?thesis using same [OF a] b by (simp add: cf1_def)
  qed
  ultimately show ?case by blast
qed


lemma add_cosmos_columns_result:
  assumes wf: "well_formed self"
  shows "distinct cs \<Longrightarrow> \<forall>c\<in>set cs. 0 \<le> c \<and> c < number_of_node_columns self \<Longrightarrow>
    length cf = length (cosmo self) \<Longrightarrow>
    \<exists>cf'. add_cosmos_columns self T cw cs cf = Inr cf'
      \<and> length cf' = length cf
      \<and> (\<forall>c\<in>set cs. \<forall>r. 0 \<le> r \<and> r < number_of_node_rows self \<longrightarrow>
            cf' ! slot_of self r c =
              (if air_at self r c then 0
               else cf ! slot_of self r c
                 + prod_rate self
                   * exp (- (cw / 2 + cw * real (solid_above self r c)) / decay_depth self) * T))
      \<and> (\<forall>j. (\<forall>c\<in>set cs. \<forall>r. 0 \<le> r \<and> r < number_of_node_rows self \<longrightarrow> j \<noteq> slot_of self r c)
            \<longrightarrow> cf' ! j = cf ! j)"
proof (induction cs arbitrary: cf)
  case Nil
  then show ?case by simp
next
  case (Cons c cs)
  have c: "0 \<le> c" "c < number_of_node_columns self"
    using Cons.prems(2) by simp_all
  have nr: "int (nat (number_of_node_rows self)) \<le> number_of_node_rows self"
    "int (nat (number_of_node_rows self)) = number_of_node_rows self"
    using wf by (simp_all add: well_formed_def)
  from add_cosmos_rows_result [OF wf c nr(1) Cons.prems(3), of T cw "cw / 2"]
  obtain d1 cf1 where
    rows: "add_cosmos_rows self T cw c (rev [0 .. number_of_node_rows self - 1]) (cw / 2, cf)
        = Inr (d1, cf1)"
    and len1: "length cf1 = length cf"
    and val1: "\<And>r. 0 \<le> r \<Longrightarrow> r < number_of_node_rows self \<Longrightarrow> cf1 ! slot_of self r c =
           (if air_at self r c then 0
            else cf ! slot_of self r c
              + prod_rate self
                * exp (- (cw / 2 + cw * real (solid_above self r c)) / decay_depth self) * T)"
    and same1: "\<And>j. (\<forall>r. 0 \<le> r \<and> r < number_of_node_rows self \<longrightarrow> j \<noteq> slot_of self r c)
        \<Longrightarrow> cf1 ! j = cf ! j"
    unfolding nr(2) solid_above_def by auto
  have len1': "length cf1 = length (cosmo self)"
    using len1 Cons.prems(3) by simp
  from Cons.IH [OF _ _ len1'] Cons.prems(1,2)
  obtain cf' where
    cols: "add_cosmos_columns self T cw cs cf1 = Inr cf'"
    and len': "length cf' = length cf1"
    and val: "\<And>c' r. c' \<in> set cs \<Longrightarrow> 0 \<le> r \<Longrightarrow> r < number_of_node_rows self \<Longrightarrow>
          cf' ! slot_of self r c' =
              (if air_at self r c' then 0
               else cf1 ! slot_of self r c'
                 + prod_rate self
                   * exp (- (cw / 2 + cw * real (solid_above self r c')) / decay_depth self) * T)"
    and same: "\<And>j. (\<forall>c'\<in>set cs. \<forall>r. 0 \<le> r \<and> r < number_of_node_rows self
          \<longrightarrow> j \<noteq> slot_of self r c') \<Longrightarrow> cf' ! j = cf1 ! j"
    by auto
  have apart: "slot_of self r c \<noteq> slot_of self r' c'"
    if "c' \<in> set cs" "0 \<le> r" "r < number_of_node_rows self"
      "0 \<le> r'" "r' < number_of_node_rows self" for r r' c'
  proof -
    have c': "0 \<le> c'" "c' < number_of_node_columns self" "c \<noteq> c'"
      using that(1) Cons.prems(1,2) by auto
    show ?thesis
      using slot_of_inj [OF wf that(2,3) c that(4,5) c'(1,2)] c'(3) by blast
  qed
  have "add_cosmos_columns self T cw (c # cs) cf = Inr cf'"
    using rows cols by simp
  moreover have "length cf' = length cf"
    using len' len1 by simp
  moreover have "cf' ! slot_of self r c' =
              (if air_at self r c' then 0
               else cf ! slot_of self r c'
                 + prod_rate self
                   * exp (- (cw / 2 + cw * real (solid_above self r c')) / decay_depth self) * T)"
    if "c' \<in> set (c # cs)" and r: "0 \<le> r" "r < number_of_node_rows self" for c' r
  proof (cases "c' \<in> set cs")
    case True
    have "cf1 ! slot_of self r c' = cf ! slot_of self r c'"
      using same1 [of "slot_of self r c'"] apart [OF True _ _ r] by metis
    with val [OF True r] show ?thesis by simp
  next
    case False
    with that(1) have eq: "c' = c" by simp
    have "cf' ! slot_of self r c = cf1 ! slot_of self r c"
      using same [of "slot_of self r c"] apart [OF _ r] by metis
    with val1 [OF r] show ?thesis by (simp add: eq)
  qed
  moreover have "cf' ! j = cf ! j"
    if "\<forall>c'\<in>set (c # cs). \<forall>r. 0 \<le> r \<and> r < number_of_node_rows self \<longrightarrow> j \<noteq> slot_of self r c'"
    for j
  proof -
    from that have "cf' ! j = cf1 ! j" by (intro same) simp
    also from that have "cf1 ! j = cf ! j" by (intro same1) simp
    finally show ?thesis .
  qed
  ultimately show ?case by blast
qed


lemma add_cosmos_result:
  assumes wf: "well_formed self"
  shows "\<exists>cf'. add_cosmos self T cw = Inr (self\<lparr>cosmo := cf'\<rparr>)
      \<and> length cf' = length (cosmo self)
      \<and> (\<forall>c r. 1 \<le> c \<and> c \<le> number_of_node_columns self - 2
                \<and> 0 \<le> r \<and> r < number_of_node_rows self \<longrightarrow>
            cf' ! slot_of self r c =
              (if air_at self r c then 0
               else cosmo self ! slot_of self r c
                 + prod_rate self
                   * exp (- (cw / 2 + cw * real (solid_above self r c)) / decay_depth self) * T))"
proof -
  have "distinct [1 .. number_of_node_columns self - 2]" by simp
  moreover have "\<forall>c\<in>set [1 .. number_of_node_columns self - 2].
      0 \<le> c \<and> c < number_of_node_columns self" by simp
  ultimately obtain cf' where
    "add_cosmos_columns self T cw [1 .. number_of_node_columns self - 2] (cosmo self) = Inr cf'"
    "length cf' = length (cosmo self)"
    "\<forall>c\<in>set [1 .. number_of_node_columns self - 2].
        \<forall>r. 0 \<le> r \<and> r < number_of_node_rows self \<longrightarrow>
            cf' ! slot_of self r c =
              (if air_at self r c then 0
               else cosmo self ! slot_of self r c
                 + prod_rate self
                   * exp (- (cw / 2 + cw * real (solid_above self r c)) / decay_depth self) * T)"
    using add_cosmos_columns_result [OF wf, of "[1 .. number_of_node_columns self - 2]"
        "cosmo self" T cw]
    by blast
  then show ?thesis
    by (intro exI [of _ cf']) (simp add: add_cosmos_def)
qed

lemma tracer_of_value:
  assumes "well_formed self" "0 \<le> r" "r < number_of_node_rows self"
    "0 \<le> c" "c < number_of_node_columns self" "length cf = length (cosmo self)"
  shows "tracer_of (self\<lparr>cosmo := cf\<rparr>) r c = Inr (cf ! slot_of self r c)"
proof -
  note s = slot_of_range [OF assms(1-5)]
  have "py_get cf (int (slot_of self r c)) = Inr (cf ! slot_of self r c)"
    using s(1) assms(6) by (simp add: py_get_in_range)
  then show ?thesis
    using s(2) by (simp add: tracer_of_def node_of_def)
qed

lemma tracer_of_before:
  assumes "well_formed self" "0 \<le> r" "r < number_of_node_rows self"
    "0 \<le> c" "c < number_of_node_columns self"
  shows "tracer_of self r c = Inr (cosmo self ! slot_of self r c)"
  using tracer_of_value [OF assms, of "cosmo self"] by simp

text \<open>
  C4, as the specification words it: on meeting an air node the walk down a column
  resets that node's tracer value and stops, so that no node below the first air node
  is modified. On the grid of the docstring example (duration 1, cell width 1) the
  call returns the tracer field that the docstring prints, and in column 1 the nodes
  below the air node of the top row have received dose.
\<close>

theorem add_cosmos_continues_below_air:
  "add_cosmos example_grid 1 1 =
     Inr (example_grid\<lparr>cosmo :=
       [0, exp (- 3 / 4), 0, exp (- 3 / 4), exp (- 3 / 4),
        0, exp (- 1 / 4), 0, exp (- 1 / 4), exp (- 1 / 4), 0, 0, 0, 0, 0]\<rparr>)
   \<and> first_air_row example_grid 1 = Some 2
   \<and> \<not> untouched_below_first_air example_grid
        (example_grid\<lparr>cosmo :=
          [0, exp (- 3 / 4), 0, exp (- 3 / 4), exp (- 3 / 4),
           0, exp (- 1 / 4), 0, exp (- 1 / 4), exp (- 1 / 4), 0, 0, 0, 0, 0]\<rparr>) 1"
proof -
  have upto_l: "[1 .. (3::int)] = [1, 2, 3]" "rev [0 .. (2::int)] = [2, 1, 0]"
    "[0 .. (1::int)] = [0, 1]"
    by (simp_all add: upto_rec1)
  have "add_cosmos example_grid 1 1 =
     Inr (example_grid\<lparr>cosmo :=
       [0, exp (- 3 / 4), 0, exp (- 3 / 4), exp (- 3 / 4),
        0, exp (- 1 / 4), 0, exp (- 1 / 4), exp (- 1 / 4), 0, 0, 0, 0, 0]\<rparr>)"
    by (simp add: example_grid_def add_cosmos_def upto_l add_cosmos_node_def
        row_col_to_id_def py_get_def py_set_def)
  moreover have far: "first_air_row example_grid 1 = Some 2"
    by (simp add: example_grid_def first_air_row_def upto_l air_at_def node_of_def
        row_col_to_id_def py_get_def)
  moreover have "\<not> untouched_below_first_air example_grid
        (example_grid\<lparr>cosmo :=
          [0, exp (- 3 / 4), 0, exp (- 3 / 4), exp (- 3 / 4),
           0, exp (- 1 / 4), 0, exp (- 1 / 4), exp (- 1 / 4), 0, 0, 0, 0, 0]\<rparr>) 1"
    by (simp add: untouched_below_first_air_def far upto_l)
      (simp add: example_grid_def tracer_of_def node_of_def row_col_to_id_def py_get_def)
  ultimately show ?thesis by simp
qed

text \<open>
  C4, amended. For every interior column, a single call visits every row from the
  topmost node downward. At an air node it resets the node's tracer value to zero and
  goes on with the cumulative depth unchanged; at a non-air node, also one below an air
  node, it adds the dose at a depth of half a cell plus one cell for each non-air node
  above it in the column.
\<close>

theorem add_cosmos_visits_every_row:
  assumes "well_formed self"
    and "1 \<le> c" "c \<le> number_of_node_columns self - 2"
    and "0 \<le> r" "r < number_of_node_rows self"
  shows "\<exists>self' old. add_cosmos self T cw = Inr self'
      \<and> tracer_of self r c = Inr old
      \<and> tracer_of self' r c =
          Inr (if air_at self r c then 0
               else old + prod_rate self
                   * exp (- (cw / 2 + cw * real (solid_above self r c)) / decay_depth self) * T)"
proof -
  have c: "0 \<le> c" "c < number_of_node_columns self"
    using assms(2,3) by simp_all
  from add_cosmos_result [OF assms(1), of T cw] obtain cf' where
    run: "add_cosmos self T cw = Inr (self\<lparr>cosmo := cf'\<rparr>)"
    and len: "length cf' = length (cosmo self)"
    and val: "cf' ! slot_of self r c =
              (if air_at self r c then 0
               else cosmo self ! slot_of self r c
                 + prod_rate self
                   * exp (- (cw / 2 + cw * real (solid_above self r c)) / decay_depth self) * T)"
    using assms(2-5) by blast
  show ?thesis
    using run val tracer_of_before [OF assms(1,4,5) c]
      tracer_of_value [OF assms(1,4,5) c len]
    by simp
qed

theorem add_cosmos_visits_every_row_witness:
  "well_formed example_grid \<and> air_at example_grid 2 1
   \<and> (\<exists>self' old. add_cosmos example_grid 1 1 = Inr self'
        \<and> tracer_of example_grid 1 1 = Inr old
        \<and> tracer_of self' 1 1 = Inr (old + exp (- (1 / 4))))"
proof -
  have wf: "well_formed example_grid"
    by (simp add: well_formed_def example_grid_def)
  have air: "air_at example_grid 2 1" "\<not> air_at example_grid 1 1"
    by (simp_all add: air_at_def node_of_def row_col_to_id_def py_get_def example_grid_def)
  have sa: "solid_above example_grid 1 1 = 0"
    using air by (simp add: solid_above_def example_grid_def upto_rec1)
  have c: "(1::int) \<le> 1" "(1::int) \<le> number_of_node_columns example_grid - 2"
    "(0::int) \<le> 1" "(1::int) < number_of_node_rows example_grid"
    by (simp_all add: example_grid_def)
  show ?thesis
    using wf air add_cosmos_visits_every_row [OF wf c, of 1 1] sa
    by (simp add: example_grid_def)
qed

text \<open>
  C5. On a well-formed grid whose tracer field is all zero, after one call with
  duration \<open>T\<close>, in an interior column all of whose nodes are non-air the \<open>i\<close>-th node
  from the top (row \<open>number_of_node_rows - 1 - i\<close>) carries the tracer value
  \<open>prod_rate * exp (- ((i + 0.5) * cell_width) / decay_depth) * T\<close>.
\<close>

theorem add_cosmos_dose_in_solid_column:
  assumes "well_formed self"
    and "list_all (\<lambda>x. x = 0) (cosmo self)"
    and "1 \<le> c" "c \<le> number_of_node_columns self - 2"
    and "list_all (\<lambda>r. \<not> air_at self r c) [0 .. number_of_node_rows self - 1]"
    and "0 \<le> i" "i < number_of_node_rows self"
  shows "\<exists>self'. add_cosmos self T cw = Inr self'
      \<and> tracer_of self' (number_of_node_rows self - 1 - i) c =
          Inr (prod_rate self
                 * exp (- ((real_of_int i + 0.5) * cw) / decay_depth self) * T)"
proof -
  define r where "r = number_of_node_rows self - 1 - i"
  have r: "0 \<le> r" "r < number_of_node_rows self"
    using assms(6,7) by (simp_all add: r_def)
  have c: "0 \<le> c" "c < number_of_node_columns self"
    using assms(3,4) by simp_all
  have "filter (\<lambda>r'. \<not> air_at self r' c) [r + 1 .. number_of_node_rows self - 1]
      = [r + 1 .. number_of_node_rows self - 1]"
    using assms(5) r by (intro filter_True) (simp add: list_all_iff)
  then have solid: "solid_above self r c = nat i"
    using assms(6) by (simp add: solid_above_def r_def)
  have zero: "cosmo self ! slot_of self r c = 0"
    using assms(2) slot_of_range(1) [OF assms(1) r c] by (simp add: list_all_length)
  have depth: "cw / 2 + cw * real (nat i) = (real_of_int i + 0.5) * cw"
    using assms(6) by (simp add: algebra_simps)
  from add_cosmos_result [OF assms(1), of T cw] obtain cf' where
    run: "add_cosmos self T cw = Inr (self\<lparr>cosmo := cf'\<rparr>)"
    and len: "length cf' = length (cosmo self)"
    and val: "cf' ! slot_of self r c =
              (if air_at self r c then 0
               else cosmo self ! slot_of self r c
                 + prod_rate self
                   * exp (- (cw / 2 + cw * real (solid_above self r c)) / decay_depth self) * T)"
    using assms(3,4) r by blast
  have "cf' ! slot_of self r c
      = prod_rate self * exp (- ((real_of_int i + 0.5) * cw) / decay_depth self) * T"
    using val assms(5) r by (simp add: zero solid depth list_all_iff)
  then show ?thesis
    using run tracer_of_value [OF assms(1) r c len] by (simp add: r_def)
qed

theorem add_cosmos_dose_in_solid_column_witness:
  "well_formed solid_grid \<and> list_all (\<lambda>x. x = 0) (cosmo solid_grid)
   \<and> \<not> air_at solid_grid 0 1 \<and> \<not> air_at solid_grid 1 1
   \<and> (\<exists>self'. add_cosmos solid_grid 7 4 = Inr self'
        \<and> tracer_of self' 0 1 = Inr (3 * exp (- ((1 + 0.5) * 4) / 2) * 7))"
proof -
  have wf: "well_formed solid_grid"
    by (simp add: well_formed_def solid_grid_def)
  have z: "list_all (\<lambda>x. x = 0) (cosmo solid_grid)"
    by (simp add: solid_grid_def)
  have air: "\<not> air_at solid_grid 0 1" "\<not> air_at solid_grid 1 1"
    by (simp_all add: air_at_def node_of_def row_col_to_id_def py_get_def solid_grid_def)
  have col: "list_all (\<lambda>r. \<not> air_at solid_grid r 1) [0 .. number_of_node_rows solid_grid - 1]"
    using air by (simp add: solid_grid_def upto_rec1)
  have c: "(1::int) \<le> 1" "(1::int) \<le> number_of_node_columns solid_grid - 2"
    "(0::int) \<le> 1" "(1::int) < number_of_node_rows solid_grid"
    by (simp_all add: solid_grid_def)
  show ?thesis
    using wf z air add_cosmos_dose_in_solid_column [OF wf z c(1,2) col c(3,4), of 7 4]
    by (simp add: solid_grid_def)
qed


section \<open>Properties of the surface extraction\<close>











section \<open>Properties of the line fit\<close>












section \<open>Properties of the driver loop\<close>














end
